theory Spec2Isabelle
  imports Main
begin

section \<open>Python values\<close>

text \<open>
  A Python \<open>str\<close> is a sequence of Unicode code points, so a string is a list of
  code-point numbers (not of bytes): \<open>str.strip\<close> removes non-ASCII white space such as
  U+00A0 as well. \<open>lit\<close> turns an ASCII literal of the source into such a string.
\<close>

type_synonym pystr = "nat list"

definition lit :: "string \<Rightarrow> pystr" where
  "lit s = map of_char s"

text \<open>
  The characters \<open>str.strip()\<close> removes when it is called without an argument: the code
  points for which \<open>str.isspace\<close> holds (the ASCII ones 9-13, 28-31 and 32, then U+0085,
  U+00A0, U+1680, U+2000-U+200A, U+2028, U+2029, U+202F, U+205F, U+3000).
\<close>

definition isspace :: "nat \<Rightarrow> bool" where
  "isspace c \<longleftrightarrow>
     (9 \<le> c \<and> c \<le> 13) \<or> (28 \<le> c \<and> c \<le> 32) \<or> c = 133 \<or> c = 160 \<or> c = 5760 \<or>
     (8192 \<le> c \<and> c \<le> 8202) \<or> c = 8232 \<or> c = 8233 \<or> c = 8239 \<or> c = 8287 \<or> c = 12288"

definition strip :: "pystr \<Rightarrow> pystr" where
  "strip s = rev (dropWhile isspace (rev (dropWhile isspace s)))"

text \<open>\<open>s.replace(' ', '_')\<close>: both arguments are one character long.\<close>

definition replace_space :: "pystr \<Rightarrow> pystr" where
  "replace_space s = map (\<lambda>c. if c = 32 then 95 else c) s"

text \<open>
  The values a node property or a returned column can hold. Cypher's \<open>null\<close> (Python's
  \<open>None\<close>) is the \<open>None\<close> of an \<open>option\<close> around this type. \<open>PTemporal\<close> stands for the
  driver's date, time and duration objects and for byte arrays: values that \<open>json.dump\<close>
  cannot encode.
\<close>

datatype propval =
    PInt int
  | PStr pystr
  | PBool bool
  | PList "propval list"
  | PTemporal nat

text \<open>The exceptions the three operations catch with \<open>except Exception\<close>.\<close>

datatype exn = ServiceUnavailable | CypherError | AttributeError | TypeError | OSError

section \<open>The data store\<close>

text \<open>
  The three query texts of the source (\<open>search_movies\<close>, \<open>get_movie_details\<close>,
  \<open>generate_graph_json\<close>). Each is run with one string parameter.
\<close>

datatype query = SearchQuery | DetailQuery | ExportQuery

text \<open>
  A node as the driver hands it over: its identity and its property dictionary.
  \<open>node[key]\<close> and \<open>node.get(key)\<close> are \<open>node_get n key\<close> (the driver answers \<open>None\<close> for
  a missing key), and a node is truthy when it has at least one property (its \<open>len\<close>).
\<close>

record node =
  node_id :: nat
  node_labels :: "pystr list"
  node_props :: "(pystr \<times> propval) list"

definition node_get :: "node \<Rightarrow> string \<Rightarrow> propval option" where
  "node_get n key = map_of (node_props n) (lit key)"

text \<open>The rows of the three queries, one field per column of the \<open>RETURN\<close> clause.\<close>

record search_row =
  sr_title :: "propval option"
  sr_released :: "propval option"
  sr_tagline :: "propval option"

record detail_row =
  dr_title :: "propval option"
  dr_released :: "propval option"
  dr_tagline :: "propval option"
  dr_directors :: "propval option list"
  dr_actors :: "propval option list"

text \<open>
  \<open>director_rels\<close> and \<open>actor_rels\<close> are lists of maps \<open>{person: p, rel: '...'}\<close>; the
  \<open>rel\<close> entry is a constant of the query and is never read, so an entry is kept as its
  \<open>person\<close>: a node, or \<open>None\<close> for the placeholder of an \<open>OPTIONAL MATCH\<close> that found
  nothing.
\<close>

record export_row =
  er_m :: node
  er_director_rels :: "node option list"
  er_actor_rels :: "node option list"

text \<open>
  What the surroundings answer: for each query, either an exception (opening the session,
  running the query or reading its result failed) or the result's rows; and whether
  \<open>os.makedirs\<close>, \<open>open\<close> and writing to the opened file fail.
\<close>

record env =
  run_search :: "pystr \<Rightarrow> exn + search_row list"
  run_detail :: "pystr \<Rightarrow> exn + detail_row list"
  run_export :: "pystr \<Rightarrow> exn + export_row list"
  makedirs_error :: "exn option"
  open_error :: "exn option"
  write_error :: "exn option"

text \<open>The lines the operations print when they catch an exception.\<close>

datatype console_line = SearchFailed exn | DetailFailed exn | GraphFailed exn

section \<open>The process state\<close>

text \<open>
  The link types and role tags the export writes, the nodes and links of the exported
  graph (the dictionaries appended to \<open>nodes\<close> and \<open>links\<close>) and the dictionary
  \<open>graph_data\<close> that is serialised.
\<close>

datatype link_type = DIRECTED | ACTED_IN

datatype role = Director | Actor

datatype node_type = Movie | Person

datatype graph_node =
    MovieNode pystr pystr "propval option" "propval option"
  | PersonNode pystr pystr role

fun gn_id :: "graph_node \<Rightarrow> pystr" where
  "gn_id (MovieNode i l r t) = i"
| "gn_id (PersonNode i l r) = i"

fun gn_label :: "graph_node \<Rightarrow> pystr" where
  "gn_label (MovieNode i l r t) = l"
| "gn_label (PersonNode i l r) = l"

fun gn_type :: "graph_node \<Rightarrow> node_type" where
  "gn_type (MovieNode i l r t) = Movie"
| "gn_type (PersonNode i l r) = Person"

fun gn_role :: "graph_node \<Rightarrow> role option" where
  "gn_role (MovieNode i l r t) = None"
| "gn_role (PersonNode i l r) = Some r"

record graph_link =
  source :: pystr
  target :: pystr
  link_type :: link_type

record export_graph =
  g_nodes :: "graph_node list"
  g_links :: "graph_link list"

text \<open>
  The file \<open>exports/graph.json\<close>: absent, or holding the serialisation of a graph, or
  left truncated by a write that failed after \<open>open(..., 'w')\<close> had emptied it.
\<close>

datatype artifact = Written export_graph | Partial

text \<open>
  What an operation can change besides returning a value: the queries sent to the data
  store (oldest first), the lines printed, the directory \<open>exports\<close> and the file in it.
\<close>

record world =
  queries :: "(query \<times> pystr) list"
  console :: "console_line list"
  exports_dir :: bool
  graph_json :: "artifact option"

definition sent :: "query \<Rightarrow> pystr \<Rightarrow> world \<Rightarrow> world" where
  "sent q p w = w\<lparr>queries := queries w @ [(q, p)]\<rparr>"

definition printed :: "console_line \<Rightarrow> world \<Rightarrow> world" where
  "printed l w = w\<lparr>console := console w @ [l]\<rparr>"

text \<open>
  \<open>result.single()\<close>: \<open>None\<close> when the result has no record, else its first record (with
  a warning when there are more).
\<close>

fun single :: "'a list \<Rightarrow> 'a option" where
  "single [] = None"
| "single (r # rs) = Some r"

section \<open>Searching\<close>

record movie_summary =
  ms_title :: "propval option"
  ms_released :: "propval option"
  ms_tagline :: "propval option"

definition summary_of :: "search_row \<Rightarrow> movie_summary" where
  "summary_of r = \<lparr>ms_title = sr_title r, ms_released = sr_released r, ms_tagline = sr_tagline r\<rparr>"

definition search_movies :: "env \<Rightarrow> pystr \<Rightarrow> world \<Rightarrow> movie_summary list \<times> world" where
  "search_movies e search_term w =
     (if search_term = [] \<or> strip search_term = [] then ([], w)
      else (case run_search e (strip search_term) of
              Inl x \<Rightarrow> ([], printed (SearchFailed x) (sent SearchQuery (strip search_term) w))
            | Inr result \<Rightarrow> (map summary_of result, sent SearchQuery (strip search_term) w)))"

section \<open>Movie details\<close>

record movie_detail =
  md_title :: "propval option"
  md_released :: "propval option"
  md_tagline :: "propval option"
  md_directors :: "propval option list"
  md_actors :: "propval option list"

text \<open>The two comprehensions \<open>[d for d in ... if d is not None]\<close>.\<close>

definition not_none :: "'a option list \<Rightarrow> 'a option list" where
  "not_none xs = filter (\<lambda>d. d \<noteq> None) xs"

definition detail_of :: "detail_row \<Rightarrow> movie_detail" where
  "detail_of r =
     \<lparr>md_title = dr_title r, md_released = dr_released r, md_tagline = dr_tagline r,
      md_directors = not_none (dr_directors r), md_actors = not_none (dr_actors r)\<rparr>"

definition get_movie_details :: "env \<Rightarrow> pystr \<Rightarrow> world \<Rightarrow> movie_detail option \<times> world" where
  "get_movie_details e movie_title w =
     (case run_detail e movie_title of
        Inl x \<Rightarrow> (None, printed (DetailFailed x) (sent DetailQuery movie_title w))
      | Inr result \<Rightarrow>
          (case single result of
             None \<Rightarrow> (None, sent DetailQuery movie_title w)
           | Some r \<Rightarrow> (Some (detail_of r), sent DetailQuery movie_title w)))"

section \<open>Exporting the graph\<close>

text \<open>
  \<open>v.replace(' ', '_')\<close> on a value that is not a string: \<open>None\<close>, numbers, booleans
  and lists have no such method (\<open>AttributeError\<close>); dates, times and byte arrays have
  a method of that name that rejects these arguments (\<open>TypeError\<close>).
\<close>

fun replace_error :: "propval option \<Rightarrow> exn" where
  "replace_error (Some (PTemporal n)) = TypeError"
| "replace_error v = AttributeError"

text \<open>The local variables \<open>nodes\<close>, \<open>node_ids\<close> and \<open>links\<close> of \<open>generate_graph_json\<close>.\<close>

record build_state =
  nodes :: "graph_node list"
  node_ids :: "pystr set"
  links :: "graph_link list"

text \<open>
  The body of the two loops over \<open>director_rels\<close> and \<open>actor_rels\<close>, which differ in the
  role tag and the link type only. \<open>person['name'].replace\<close> raises when the name is
  missing or is not a string.
\<close>

definition person_step ::
    "role \<Rightarrow> link_type \<Rightarrow> pystr \<Rightarrow> node option \<Rightarrow> build_state \<Rightarrow> exn + build_state" where
  "person_step rl ty movie_id rel s =
     (case rel of
        None \<Rightarrow> Inr s
      | Some person \<Rightarrow>
          if node_props person = [] then Inr s
          else (case node_get person ''name'' of
                  Some (PStr name) \<Rightarrow>
                    (let person_id = lit ''person_'' @ replace_space name;
                         s1 = (if person_id \<notin> node_ids s
                               then s\<lparr>nodes := nodes s @ [PersonNode person_id name rl],
                                      node_ids := insert person_id (node_ids s)\<rparr>
                               else s)
                     in Inr (s1\<lparr>links := links s1 @
                                [\<lparr>source = person_id, target = movie_id, link_type = ty\<rparr>]\<rparr>))
                | v \<Rightarrow> Inl (replace_error v)))"

fun rel_loop ::
    "role \<Rightarrow> link_type \<Rightarrow> pystr \<Rightarrow> node option list \<Rightarrow> build_state \<Rightarrow> exn + build_state" where
  "rel_loop rl ty movie_id [] s = Inr s"
| "rel_loop rl ty movie_id (rel # rels) s =
     (case person_step rl ty movie_id rel s of
        Inl x \<Rightarrow> Inl x
      | Inr s' \<Rightarrow> rel_loop rl ty movie_id rels s')"

text \<open>From the record to \<open>graph_data\<close>: the movie node, then the two loops.\<close>

definition build_graph :: "export_row \<Rightarrow> exn + export_graph" where
  "build_graph r =
     (case node_get (er_m r) ''title'' of
        Some (PStr title) \<Rightarrow>
          (let movie_id = lit ''movie_'' @ replace_space title;
               s0 = \<lparr>nodes = [MovieNode movie_id title
                                 (node_get (er_m r) ''released'')
                                 (node_get (er_m r) ''tagline'')],
                     node_ids = {movie_id}, links = []\<rparr>
           in case rel_loop Director DIRECTED movie_id (er_director_rels r) s0 of
                Inl x \<Rightarrow> Inl x
              | Inr s1 \<Rightarrow>
                  (case rel_loop Actor ACTED_IN movie_id (er_actor_rels r) s1 of
                     Inl x \<Rightarrow> Inl x
                   | Inr s2 \<Rightarrow> Inr \<lparr>g_nodes = nodes s2, g_links = links s2\<rparr>))
      | v \<Rightarrow> Inl (replace_error v))"

text \<open>
  \<open>json.dump\<close> raises \<open>TypeError\<close> on a value it cannot encode. Ids, labels, types and
  roles are strings; only a movie's \<open>released\<close> and \<open>tagline\<close> can be anything.
\<close>

fun json_ok :: "propval \<Rightarrow> bool" where
  "json_ok (PInt i) = True"
| "json_ok (PStr s) = True"
| "json_ok (PBool b) = True"
| "json_ok (PList vs) = list_all json_ok vs"
| "json_ok (PTemporal n) = False"

fun node_json_ok :: "graph_node \<Rightarrow> bool" where
  "node_json_ok (MovieNode i l r t) =
     ((case r of None \<Rightarrow> True | Some v \<Rightarrow> json_ok v) \<and> (case t of None \<Rightarrow> True | Some v \<Rightarrow> json_ok v))"
| "node_json_ok (PersonNode i l r) = True"

definition graph_json_ok :: "export_graph \<Rightarrow> bool" where
  "graph_json_ok g = list_all node_json_ok (g_nodes g)"

text \<open>
  The writing part: \<open>os.makedirs('exports', exist_ok=True)\<close>, then \<open>open\<close> for writing
  (which empties the file), then \<open>json.dump\<close>, which writes piece by piece.
\<close>

definition write_graph :: "env \<Rightarrow> export_graph \<Rightarrow> world \<Rightarrow> bool \<times> world" where
  "write_graph e graph_data w =
     (case makedirs_error e of
        Some x \<Rightarrow> (False, printed (GraphFailed x) w)
      | None \<Rightarrow>
          (let w1 = w\<lparr>exports_dir := True\<rparr> in
           case open_error e of
             Some x \<Rightarrow> (False, printed (GraphFailed x) w1)
           | None \<Rightarrow>
               if \<not> graph_json_ok graph_data
               then (False, printed (GraphFailed TypeError) (w1\<lparr>graph_json := Some Partial\<rparr>))
               else (case write_error e of
                       Some x \<Rightarrow> (False, printed (GraphFailed x) (w1\<lparr>graph_json := Some Partial\<rparr>))
                     | None \<Rightarrow> (True, w1\<lparr>graph_json := Some (Written graph_data)\<rparr>))))"

definition generate_graph_json :: "env \<Rightarrow> pystr \<Rightarrow> world \<Rightarrow> bool \<times> world" where
  "generate_graph_json e movie_title w =
     (case run_export e movie_title of
        Inl x \<Rightarrow> (False, printed (GraphFailed x) (sent ExportQuery movie_title w))
      | Inr result \<Rightarrow>
          (case single result of
             None \<Rightarrow> (False, sent ExportQuery movie_title w)
           | Some r \<Rightarrow>
               (case build_graph r of
                  Inl x \<Rightarrow> (False, printed (GraphFailed x) (sent ExportQuery movie_title w))
                | Inr graph_data \<Rightarrow> write_graph e graph_data (sent ExportQuery movie_title w))))"

section \<open>The two record queries on a property graph\<close>

text \<open>
  The data behind the driver: labelled nodes with properties, and typed relationships
  from a start node to an end node. Several relationships of one type may join the same
  two nodes. Node ids are taken to be distinct.
\<close>

record relationship =
  rel_type :: pystr
  rel_start :: nat
  rel_end :: nat

record graph_db =
  db_nodes :: "node list"
  db_rels :: "relationship list"

text \<open>\<open>MATCH (m:Movie {title: $title})\<close>: one row per such node.\<close>

definition match_movie :: "graph_db \<Rightarrow> pystr \<Rightarrow> node list" where
  "match_movie g title =
     filter (\<lambda>m. lit ''Movie'' \<in> set (node_labels m) \<and> node_get m ''title'' = Some (PStr title))
       (db_nodes g)"

text \<open>
  \<open>OPTIONAL MATCH (p:Person)-[:T]->(m)\<close> for one row: a row per relationship of type
  \<open>T\<close> that ends in \<open>m\<close> and starts in a \<open>Person\<close> node, or one row with \<open>null\<close> when
  there is none.
\<close>

definition related :: "graph_db \<Rightarrow> string \<Rightarrow> node \<Rightarrow> node list" where
  "related g ty m =
     concat (map (\<lambda>r. filter (\<lambda>p. node_id p = rel_start r \<and> lit ''Person'' \<in> set (node_labels p))
                        (db_nodes g))
               (filter (\<lambda>r. rel_type r = lit ty \<and> rel_end r = node_id m) (db_rels g)))"

definition optional_match :: "graph_db \<Rightarrow> string \<Rightarrow> node \<Rightarrow> node option list" where
  "optional_match g ty m = (if related g ty m = [] then [None] else map Some (related g ty m))"

text \<open>
  The rows after both \<open>OPTIONAL MATCH\<close> clauses, for one movie node: every director
  (or \<open>null\<close>) paired with every actor (or \<open>null\<close>).
\<close>

definition match_rows :: "graph_db \<Rightarrow> node \<Rightarrow> (node option \<times> node option) list" where
  "match_rows g m = List.product (optional_match g ''DIRECTED'' m) (optional_match g ''ACTED_IN'' m)"

text \<open>\<open>collect(DISTINCT x)\<close> over rows, in the order of first occurrence.\<close>

definition collect_distinct :: "'a list \<Rightarrow> 'a list" where
  "collect_distinct xs = rev (remdups (rev xs))"

text \<open>
  The query of \<open>generate_graph_json\<close>: \<open>WITH m, collect(DISTINCT {person: d, rel:
  'DIRECTED'}), collect(DISTINCT {person: a, rel: 'ACTED_IN'})\<close> groups the rows by the
  movie node. A map is never \<open>null\<close>, so the map of a \<open>null\<close> person is collected too.
\<close>

definition export_query :: "graph_db \<Rightarrow> pystr \<Rightarrow> export_row list" where
  "export_query g title =
     map (\<lambda>m. \<lparr>er_m = m,
                er_director_rels = collect_distinct (map fst (match_rows g m)),
                er_actor_rels = collect_distinct (map snd (match_rows g m))\<rparr>)
       (match_movie g title)"

text \<open>
  The query of \<open>get_movie_details\<close>: the rows are grouped by the three plain columns,
  and \<open>collect(DISTINCT d.name)\<close> leaves out \<open>null\<close> (the name of a \<open>null\<close> person or of
  a person without that property).
\<close>

definition name_of :: "node option \<Rightarrow> propval option" where
  "name_of p = (case p of None \<Rightarrow> None | Some n \<Rightarrow> node_get n ''name'')"

definition group_key :: "node \<Rightarrow> propval option \<times> propval option \<times> propval option" where
  "group_key m = (node_get m ''title'', node_get m ''released'', node_get m ''tagline'')"

definition collect_names :: "node option list \<Rightarrow> propval option list" where
  "collect_names ps = collect_distinct (filter (\<lambda>n. n \<noteq> None) (map name_of ps))"

definition detail_query :: "graph_db \<Rightarrow> pystr \<Rightarrow> detail_row list" where
  "detail_query g title =
     map (\<lambda>k. \<lparr>dr_title = fst k, dr_released = fst (snd k), dr_tagline = snd (snd k),
                dr_directors =
                  collect_names (concat (map (\<lambda>m. map fst (match_rows g m))
                    (filter (\<lambda>m. group_key m = k) (match_movie g title)))),
                dr_actors =
                  collect_names (concat (map (\<lambda>m. map snd (match_rows g m))
                    (filter (\<lambda>m. group_key m = k) (match_movie g title))))\<rparr>)
       (collect_distinct (map group_key (match_movie g title)))"

text \<open>A driver whose record queries are answered from a graph.\<close>

definition db_env :: "graph_db \<Rightarrow> (pystr \<Rightarrow> exn + search_row list) \<Rightarrow> env" where
  "db_env g search =
     \<lparr>run_search = search,
      run_detail = (\<lambda>title. Inr (detail_query g title)),
      run_export = (\<lambda>title. Inr (export_query g title)),
      makedirs_error = None, open_error = None, write_error = None\<rparr>"

section \<open>Vocabulary for the properties\<close>

text \<open>
  The entries of a relationship collection that the loops process: those whose person
  is not \<open>None\<close> and is truthy.
\<close>

fun present :: "node option list \<Rightarrow> node list" where
  "present [] = []"
| "present (None # rels) = present rels"
| "present (Some p # rels) = (if node_props p = [] then present rels else p # present rels)"

text \<open>All entries whose person is not \<open>None\<close>.\<close>

fun people :: "node option list \<Rightarrow> node list" where
  "people [] = []"
| "people (None # rels) = people rels"
| "people (Some p # rels) = p # people rels"

text \<open>The id of the movie node of a record whose movie has a string title.\<close>

definition movie_id_of :: "export_row \<Rightarrow> pystr" where
  "movie_id_of r =
     lit ''movie_'' @
     replace_space (case node_get (er_m r) ''title'' of Some (PStr title) \<Rightarrow> title | _ \<Rightarrow> [])"

text \<open>A person's name when it is a string, and the id derived from it.\<close>

definition has_name :: "node \<Rightarrow> bool" where
  "has_name p = (case node_get p ''name'' of Some (PStr name) \<Rightarrow> True | _ \<Rightarrow> False)"

definition name_str :: "node \<Rightarrow> pystr" where
  "name_str p = (case node_get p ''name'' of Some (PStr name) \<Rightarrow> name | _ \<Rightarrow> [])"

definition person_id_of :: "node \<Rightarrow> pystr" where
  "person_id_of p = lit ''person_'' @ replace_space (name_str p)"

definition link_of :: "link_type \<Rightarrow> pystr \<Rightarrow> node \<Rightarrow> graph_link" where
  "link_of ty movie_id p = \<lparr>source = person_id_of p, target = movie_id, link_type = ty\<rparr>"

text \<open>
  The person nodes a loop appends: one for each person whose id is not among the ids
  seen so far.
\<close>

fun new_nodes :: "role \<Rightarrow> pystr set \<Rightarrow> node list \<Rightarrow> graph_node list" where
  "new_nodes rl ids [] = []"
| "new_nodes rl ids (p # ps) =
     (if person_id_of p \<in> ids then new_nodes rl ids ps
      else PersonNode (person_id_of p) (name_str p) rl # new_nodes rl (insert (person_id_of p) ids) ps)"

text \<open>
  The graph built from a record whose movie title and person names are strings, written
  without the loops.
\<close>

definition graph_of :: "export_row \<Rightarrow> pystr \<Rightarrow> export_graph" where
  "graph_of r title =
     \<lparr>g_nodes =
        MovieNode (movie_id_of r) title (node_get (er_m r) ''released'') (node_get (er_m r) ''tagline'') #
        new_nodes Director {movie_id_of r} (present (er_director_rels r)) @
        new_nodes Actor (insert (movie_id_of r) (set (map person_id_of (present (er_director_rels r)))))
          (present (er_actor_rels r)),
      g_links =
        map (link_of DIRECTED (movie_id_of r)) (present (er_director_rels r)) @
        map (link_of ACTED_IN (movie_id_of r)) (present (er_actor_rels r))\<rparr>"

text \<open>The invariants of the exported graph: unique node ids, no dangling link.\<close>

definition well_formed :: "export_graph \<Rightarrow> bool" where
  "well_formed g \<longleftrightarrow>
     distinct (map gn_id (g_nodes g)) \<and>
     list_all (\<lambda>l. source l \<in> set (map gn_id (g_nodes g)) \<and> target l \<in> set (map gn_id (g_nodes g)))
       (g_links g)"

section \<open>Example data\<close>

definition person_node :: "nat \<Rightarrow> string \<Rightarrow> node" where
  "person_node i name =
     \<lparr>node_id = i, node_labels = [lit ''Person''], node_props = [(lit ''name'', PStr (lit name))]\<rparr>"

definition movie_node :: "nat \<Rightarrow> string \<Rightarrow> int \<Rightarrow> node" where
  "movie_node i title year =
     \<lparr>node_id = i, node_labels = [lit ''Movie''],
      node_props = [(lit ''title'', PStr (lit title)), (lit ''released'', PInt year)]\<rparr>"

definition mk_rel :: "string \<Rightarrow> nat \<Rightarrow> nat \<Rightarrow> relationship" where
  "mk_rel ty a b = \<lparr>rel_type = lit ty, rel_start = a, rel_end = b\<rparr>"

definition w0 :: world where
  "w0 = \<lparr>queries = [], console = [], exports_dir = False, graph_json = None\<rparr>"

text \<open>A store that answers every search with one movie.\<close>

definition matrix_search :: "pystr \<Rightarrow> exn + search_row list" where
  "matrix_search term =
     Inr [\<lparr>sr_title = Some (PStr (lit ''The Matrix'')), sr_released = Some (PInt 1999),
           sr_tagline = None\<rparr>]"

text \<open>
  A movie with two directors, one of whom also acts in it, and one further actor; a
  movie nobody directed or acted in; a movie whose director and two actors are three
  different people.
\<close>

definition movies_db :: graph_db where
  "movies_db =
     \<lparr>db_nodes = [movie_node 0 ''The Matrix'' 1999, person_node 1 ''Lana Wachowski'',
                  person_node 2 ''Keanu Reeves'', person_node 3 ''Lilly Wachowski'',
                  movie_node 4 ''Untitled'' 2000, movie_node 5 ''Speed'' 1994,
                  person_node 6 ''Jan de Bont'', person_node 7 ''Sandra Bullock''],
      db_rels = [mk_rel ''DIRECTED'' 1 0, mk_rel ''DIRECTED'' 3 0, mk_rel ''ACTED_IN'' 2 0,
                 mk_rel ''ACTED_IN'' 1 0, mk_rel ''DIRECTED'' 6 5, mk_rel ''ACTED_IN'' 2 5,
                 mk_rel ''ACTED_IN'' 7 5]\<rparr>"

text \<open>The records the export query returns for two of these movies.\<close>

definition matrix_row :: export_row where
  "matrix_row =
     \<lparr>er_m = movie_node 0 ''The Matrix'' 1999,
      er_director_rels = [Some (person_node 1 ''Lana Wachowski''), Some (person_node 3 ''Lilly Wachowski'')],
      er_actor_rels = [Some (person_node 2 ''Keanu Reeves''), Some (person_node 1 ''Lana Wachowski'')]\<rparr>"

definition speed_row :: export_row where
  "speed_row =
     \<lparr>er_m = movie_node 5 ''Speed'' 1994,
      er_director_rels = [Some (person_node 6 ''Jan de Bont'')],
      er_actor_rels = [Some (person_node 2 ''Keanu Reeves''), Some (person_node 7 ''Sandra Bullock'')]\<rparr>"

definition movies_env :: env where
  "movies_env = db_env movies_db matrix_search"

text \<open>The same store when the directory \<open>exports\<close> cannot be created.\<close>

definition readonly_env :: env where
  "readonly_env = movies_env\<lparr>makedirs_error := Some OSError\<rparr>"

text \<open>
  A driver that answers the detail query with a record whose collections hold the
  \<open>null\<close> of an outer join.
\<close>

definition placeholder_row :: detail_row where
  "placeholder_row =
     \<lparr>dr_title = Some (PStr (lit ''Untitled'')), dr_released = Some (PInt 2000),
      dr_tagline = None, dr_directors = [None], dr_actors = [None]\<rparr>"

definition placeholder_env :: env where
  "placeholder_env = movies_env\<lparr>run_detail := (\<lambda>title. Inr [placeholder_row])\<rparr>"

text \<open>A store that refuses every connection, and a store that holds nothing.\<close>

definition refused_env :: env where
  "refused_env =
     \<lparr>run_search = (\<lambda>term. Inl ServiceUnavailable),
      run_detail = (\<lambda>title. Inl ServiceUnavailable),
      run_export = (\<lambda>title. Inl ServiceUnavailable),
      makedirs_error = None, open_error = None, write_error = None\<rparr>"

definition empty_env :: env where
  "empty_env = db_env \<lparr>db_nodes = [], db_rels = []\<rparr> (\<lambda>term. Inr [])"

text \<open>A movie whose one actor is joined to it by two \<open>ACTED_IN\<close> relationships.\<close>

definition twice_db :: graph_db where
  "twice_db =
     \<lparr>db_nodes = [movie_node 0 ''Duel'' 1971, person_node 1 ''Dennis Weaver''],
      db_rels = [mk_rel ''ACTED_IN'' 1 0, mk_rel ''ACTED_IN'' 1 0]\<rparr>"

definition twice_env :: env where
  "twice_env = db_env twice_db (\<lambda>term. Inr [])"

text \<open>The graph the export writes for it.\<close>

definition duel_graph :: export_graph where
  "duel_graph =
     \<lparr>g_nodes = [MovieNode (lit ''movie_Duel'') (lit ''Duel'') (Some (PInt 1971)) None,
                 PersonNode (lit ''person_Dennis_Weaver'') (lit ''Dennis Weaver'') Actor],
      g_links = [\<lparr>source = lit ''person_Dennis_Weaver'', target = lit ''movie_Duel'',
                  link_type = ACTED_IN\<rparr>]\<rparr>"

text \<open>
  A movie with two directors and no actor; the directors' names differ, in a space
  against an underscore.
\<close>

definition collide_db :: graph_db where
  "collide_db =
     \<lparr>db_nodes = [movie_node 0 ''Pair'' 2001, person_node 1 ''A B'', person_node 2 ''A_B''],
      db_rels = [mk_rel ''DIRECTED'' 1 0, mk_rel ''DIRECTED'' 2 0]\<rparr>"

definition collide_env :: env where
  "collide_env = db_env collide_db (\<lambda>term. Inr [])"

text \<open>
  A movie with two actors of the same name, one of them joined to it by two \<open>ACTED_IN\<close>
  relationships; the record the export query returns for it and the graph the export
  writes.
\<close>

definition namesake_db :: graph_db where
  "namesake_db =
     \<lparr>db_nodes = [movie_node 0 ''Duel'' 1971, person_node 1 ''Dennis Weaver'',
                  person_node 2 ''Dennis Weaver''],
      db_rels = [mk_rel ''ACTED_IN'' 1 0, mk_rel ''ACTED_IN'' 1 0, mk_rel ''ACTED_IN'' 2 0]\<rparr>"

definition namesake_env :: env where
  "namesake_env = db_env namesake_db (\<lambda>term. Inr [])"

definition namesake_row :: export_row where
  "namesake_row =
     \<lparr>er_m = movie_node 0 ''Duel'' 1971, er_director_rels = [None],
      er_actor_rels = [Some (person_node 1 ''Dennis Weaver''), Some (person_node 2 ''Dennis Weaver'')]\<rparr>"

definition namesake_graph :: export_graph where
  "namesake_graph =
     \<lparr>g_nodes = [MovieNode (lit ''movie_Duel'') (lit ''Duel'') (Some (PInt 1971)) None,
                 PersonNode (lit ''person_Dennis_Weaver'') (lit ''Dennis Weaver'') Actor],
      g_links = [\<lparr>source = lit ''person_Dennis_Weaver'', target = lit ''movie_Duel'',
                  link_type = ACTED_IN\<rparr>,
                 \<lparr>source = lit ''person_Dennis_Weaver'', target = lit ''movie_Duel'',
                  link_type = ACTED_IN\<rparr>]\<rparr>"

text \<open>A movie directed and acted in by a person node that has no property at all.\<close>

definition bare_person :: node where
  "bare_person = \<lparr>node_id = 1, node_labels = [lit ''Person''], node_props = []\<rparr>"

definition bare_db :: graph_db where
  "bare_db =
     \<lparr>db_nodes = [movie_node 0 ''Solo'' 2018, bare_person],
      db_rels = [mk_rel ''DIRECTED'' 1 0, mk_rel ''ACTED_IN'' 1 0]\<rparr>"

definition bare_env :: env where
  "bare_env = db_env bare_db (\<lambda>term. Inr [])"

text \<open>
  A movie with two directors whose names differ in a space against an underscore, the
  first of whom also acts in it.
\<close>

definition shared_db :: graph_db where
  "shared_db =
     \<lparr>db_nodes = [movie_node 0 ''Pair'' 2001, person_node 1 ''A B'', person_node 2 ''A_B''],
      db_rels = [mk_rel ''DIRECTED'' 1 0, mk_rel ''DIRECTED'' 2 0, mk_rel ''ACTED_IN'' 1 0]\<rparr>"

definition shared_env :: env where
  "shared_env = db_env shared_db (\<lambda>term. Inr [])"

section \<open>Stripping\<close>

lemma strip_whitespace_only: "list_all isspace s \<Longrightarrow> strip s = []"
proof -
  assume "list_all isspace s"
  then have d: "dropWhile isspace s = []" by (metis dropWhile_eq_Nil_conv list_all_iff)
  show ?thesis unfolding strip_def d by simp
qed

lemma dropWhile_rev_dropWhile:
  "dropWhile P (rev (dropWhile P (rev (dropWhile P xs)))) = rev (dropWhile P (rev (dropWhile P xs)))"
proof (cases "dropWhile P (rev (dropWhile P xs))")
  case Nil
  show ?thesis by (simp only: Nil rev.simps dropWhile.simps)
next
  case (Cons y ys)
  then have ny: "\<not> P y" using hd_dropWhile [of P "rev (dropWhile P xs)"] by auto
  have "dropWhile P xs \<noteq> []" using Cons by (metis dropWhile.simps(1) list.distinct(1) rev.simps(1))
  then have "\<not> P (hd (dropWhile P xs))" by (rule hd_dropWhile)
  moreover have "rev (y # ys) \<noteq> []" by simp
  moreover have "hd (rev (y # ys)) = hd (dropWhile P xs)"
  proof -
    obtain zs where zs: "rev (dropWhile P xs) = zs @ y # ys"
      using Cons by (metis takeWhile_dropWhile_id)
    then have "dropWhile P xs = rev (y # ys) @ rev zs"
      by (metis rev_append rev_rev_ident)
    then show ?thesis by (metis \<open>rev (y # ys) \<noteq> []\<close> hd_append2)
  qed
  ultimately have "dropWhile P (rev (y # ys)) = rev (y # ys)"
    by (metis dropWhile_eq_self_iff)
  then show ?thesis using Cons by simp
qed

lemma strip_strip: "strip (strip s) = strip s"
proof -
  let ?d = "dropWhile isspace"
  have a: "?d (rev (?d (rev (?d s)))) = rev (?d (rev (?d s)))"
    by (rule dropWhile_rev_dropWhile)
  have "strip (strip s) = rev (?d (rev (?d (rev (?d (rev (?d s)))))))"
    by (simp add: strip_def)
  also have "\<dots> = rev (?d (rev (rev (?d (rev (?d s))))))"
    by (simp only: a)
  also have "\<dots> = rev (?d (?d (rev (?d s))))"
    by simp
  also have "\<dots> = rev (?d (rev (?d s)))"
    by (simp add: dropWhile_idem)
  finally show ?thesis by (simp add: strip_def)
qed

lemma strip_ends:
  assumes "strip s \<noteq> []"
  shows "\<not> isspace (hd (strip s))" and "\<not> isspace (last (strip s))"
proof -
  let ?d = "dropWhile isspace"
  have "?d (strip s) = strip s"
    unfolding strip_def by (rule dropWhile_rev_dropWhile)
  then show "\<not> isspace (hd (strip s))"
    using assms hd_dropWhile [of isspace "strip s"] by simp
  have ne: "?d (rev (?d s)) \<noteq> []" using assms by (simp add: strip_def)
  then have "\<not> isspace (hd (?d (rev (?d s))))" by (rule hd_dropWhile)
  then show "\<not> isspace (last (strip s))"
    using ne by (simp add: strip_def last_rev)
qed

section \<open>The export loops\<close>

lemma person_step_present:
  "person_step rl ty mid rel s =
     (case present [rel] of
        [] \<Rightarrow> Inr s
      | p # _ \<Rightarrow>
          if has_name p
          then Inr \<lparr>nodes = nodes s @ new_nodes rl (node_ids s) [p],
                    node_ids = insert (person_id_of p) (node_ids s),
                    links = links s @ [link_of ty mid p]\<rparr>
          else Inl (replace_error (node_get p ''name'')))"
  by (cases s; cases rel)
     (auto simp: person_step_def has_name_def name_str_def person_id_of_def link_of_def Let_def
             insert_absorb
           split: option.splits propval.splits)

lemma rel_loop_named:
  "list_all has_name (present rels) \<Longrightarrow>
   rel_loop rl ty mid rels s =
     Inr \<lparr>nodes = nodes s @ new_nodes rl (node_ids s) (present rels),
          node_ids = node_ids s \<union> set (map person_id_of (present rels)),
          links = links s @ map (link_of ty mid) (present rels)\<rparr>"
proof (induction rels arbitrary: s)
  case Nil
  then show ?case by simp
next
  case (Cons rel rels)
  show ?case
  proof (cases "present [rel]")
    case Nil
    then have p: "present (rel # rels) = present rels"
      by (cases rel) (auto split: if_splits)
    have "person_step rl ty mid rel s = Inr s"
      by (simp add: person_step_present Nil)
    then show ?thesis using Cons p by simp
  next
    case (Cons p ps)
    then have p: "present (rel # rels) = p # present rels"
      by (cases rel) (auto split: if_splits)
    with Cons.prems have hp: "has_name p" and rest: "list_all has_name (present rels)"
      by simp_all
    let ?s = "\<lparr>nodes = nodes s @ new_nodes rl (node_ids s) [p],
                    node_ids = insert (person_id_of p) (node_ids s),
                    links = links s @ [link_of ty mid p]\<rparr>"
    have "person_step rl ty mid rel s = Inr ?s"
      by (simp add: person_step_present Cons hp)
    then have "rel_loop rl ty mid (rel # rels) s = rel_loop rl ty mid rels ?s"
      by simp
    also have "\<dots> = Inr \<lparr>nodes = nodes ?s @ new_nodes rl (node_ids ?s) (present rels),
          node_ids = node_ids ?s \<union> set (map person_id_of (present rels)),
          links = links ?s @ map (link_of ty mid) (present rels)\<rparr>"
      by (rule Cons.IH [OF rest])
    finally show ?thesis
      by (simp add: p insert_absorb)
  qed
qed

lemma rel_loop_Inr_named:
  "rel_loop rl ty mid rels s = Inr s' \<Longrightarrow> list_all has_name (present rels)"
proof (induction rels arbitrary: s)
  case Nil
  then show ?case by simp
next
  case (Cons rel rels)
  then show ?case
    by (cases rel) (auto simp: person_step_present split: sum.splits if_splits list.splits)
qed

lemma build_graph_named:
  assumes "node_get (er_m r) ''title'' = Some (PStr title)"
    and "list_all has_name (present (er_director_rels r))"
    and "list_all has_name (present (er_actor_rels r))"
  shows "build_graph r = Inr (graph_of r title)"
  using assms
  by (simp add: build_graph_def graph_of_def movie_id_of_def rel_loop_named Let_def)

lemma build_graph_Inr:
  assumes "build_graph r = Inr g"
  shows "\<exists>title. node_get (er_m r) ''title'' = Some (PStr title) \<and>
           list_all has_name (present (er_director_rels r)) \<and>
           list_all has_name (present (er_actor_rels r)) \<and> g = graph_of r title"
proof -
  from assms obtain title where t: "node_get (er_m r) ''title'' = Some (PStr title)"
    by (auto simp: build_graph_def split: option.splits propval.splits)
  let ?mid = "lit ''movie_'' @ replace_space title"
  let ?s0 = "\<lparr>nodes = [MovieNode ?mid title (node_get (er_m r) ''released'')
                                 (node_get (er_m r) ''tagline'')],
                     node_ids = {?mid}, links = []\<rparr>"
  from assms t obtain s1 where s1: "rel_loop Director DIRECTED ?mid (er_director_rels r) ?s0 = Inr s1"
    by (auto simp: build_graph_def Let_def split: sum.splits)
  with assms t obtain s2 where s2: "rel_loop Actor ACTED_IN ?mid (er_actor_rels r) s1 = Inr s2"
    by (auto simp: build_graph_def Let_def split: sum.splits)
  have d: "list_all has_name (present (er_director_rels r))"
    using s1 by (rule rel_loop_Inr_named)
  have a: "list_all has_name (present (er_actor_rels r))"
    using s2 by (rule rel_loop_Inr_named)
  have "build_graph r = Inr (graph_of r title)"
    using t d a by (rule build_graph_named)
  with assms t d a show ?thesis by auto
qed

lemma ids_new_nodes:
  "gn_id ` set (new_nodes rl ids ps) = person_id_of ` set ps - ids"
  by (induction ps arbitrary: ids) auto

lemma new_nodes_id:
  "n \<in> set (new_nodes rl ids ps) \<Longrightarrow> gn_id n \<notin> ids \<and> gn_id n \<in> person_id_of ` set ps"
  using ids_new_nodes [of rl ids ps] by blast

lemma distinct_new_nodes: "distinct (map gn_id (new_nodes rl ids ps))"
proof (induction ps arbitrary: ids)
  case Nil
  show ?case by simp
next
  case (Cons p ps)
  have "person_id_of p \<notin> gn_id ` set (new_nodes rl (insert (person_id_of p) ids) ps)"
    using new_nodes_id by fastforce
  then show ?case using Cons by simp
qed

lemma role_new_nodes:
  "n \<in> set (new_nodes rl ids ps) \<Longrightarrow> gn_role n = Some rl \<and> gn_type n = Person"
  by (induction ps arbitrary: ids) (auto split: if_splits)

lemma new_nodes_fresh:
  "distinct (map person_id_of ps) \<Longrightarrow> person_id_of ` set ps \<inter> ids = {} \<Longrightarrow>
   new_nodes rl ids ps = map (\<lambda>p. PersonNode (person_id_of p) (name_str p) rl) ps"
  by (induction ps arbitrary: ids) auto

lemma movie_id_not_person_id: "movie_id_of r \<noteq> person_id_of p"
  by (simp add: movie_id_of_def person_id_of_def lit_def)

lemma graph_of_ids:
  "gn_id ` set (g_nodes (graph_of r title)) =
     insert (movie_id_of r)
       (person_id_of ` set (present (er_director_rels r)) \<union>
        person_id_of ` set (present (er_actor_rels r)))"
proof -
  let ?m = "movie_id_of r"
  let ?d = "person_id_of ` set (present (er_director_rels r))"
  let ?a = "person_id_of ` set (present (er_actor_rels r))"
  have "gn_id ` set (g_nodes (graph_of r title)) =
          insert ?m ((?d - {?m}) \<union> (?a - insert ?m ?d))"
    by (simp add: graph_of_def image_Un ids_new_nodes)
  also have "\<dots> = insert ?m (?d \<union> ?a)"
    by blast
  finally show ?thesis .
qed

lemma graph_of_distinct: "distinct (map gn_id (g_nodes (graph_of r title)))"
proof -
  let ?m = "movie_id_of r"
  let ?D = "new_nodes Director {?m} (present (er_director_rels r))"
  let ?A = "new_nodes Actor (insert ?m (set (map person_id_of (present (er_director_rels r)))))
              (present (er_actor_rels r))"
  have 1: "?m \<notin> gn_id ` set ?D" using new_nodes_id by fastforce
  have 2: "?m \<notin> gn_id ` set ?A" using new_nodes_id by fastforce
  have 3: "gn_id ` set ?D \<inter> gn_id ` set ?A = {}"
  proof -
    have "gn_id ` set ?D \<subseteq> person_id_of ` set (present (er_director_rels r))"
      using new_nodes_id by fastforce
    moreover have "gn_id ` set ?A \<inter> person_id_of ` set (present (er_director_rels r)) = {}"
      using new_nodes_id by fastforce
    ultimately show ?thesis by blast
  qed
  show ?thesis
    using 1 2 3 by (simp add: graph_of_def distinct_new_nodes)
qed

lemma graph_of_well_formed: "well_formed (graph_of r title)"
proof -
  have "list_all (\<lambda>l. source l \<in> gn_id ` set (g_nodes (graph_of r title)) \<and>
                      target l \<in> gn_id ` set (g_nodes (graph_of r title)))
          (g_links (graph_of r title))"
    unfolding graph_of_ids by (auto simp: graph_of_def list_all_iff link_of_def)
  then show ?thesis
    by (simp add: well_formed_def graph_of_distinct)
qed

section \<open>The export as a whole\<close>

text \<open>A successful export found a record, built a graph from it and wrote that graph.\<close>

lemma generate_graph_json_True:
  assumes "generate_graph_json e t w = (True, w')"
  shows "\<exists>r rs g. run_export e t = Inr (r # rs) \<and> build_graph r = Inr g \<and>
           w' = (sent ExportQuery t w)\<lparr>exports_dir := True, graph_json := Some (Written g)\<rparr>"
  using assms
  by (auto simp: generate_graph_json_def write_graph_def printed_def Let_def
      split: sum.splits option.splits list.splits if_splits elim!: single.elims)

text \<open>
  The export succeeds when the record is found, its title and names are strings, its
  values can be encoded and the file system does not fail.
\<close>

lemma generate_graph_json_succeeds:
  assumes "run_export e t = Inr (r # rs)" and "build_graph r = Inr g" and "graph_json_ok g"
    and "makedirs_error e = None" and "open_error e = None" and "write_error e = None"
  shows "generate_graph_json e t w =
           (True, (sent ExportQuery t w)\<lparr>exports_dir := True, graph_json := Some (Written g)\<rparr>)"
  using assms by (simp add: generate_graph_json_def write_graph_def)

lemma write_graph_fails:
  assumes "makedirs_error e \<noteq> None \<or> open_error e \<noteq> None \<or> write_error e \<noteq> None"
  shows "fst (write_graph e g w) = False"
  using assms by (auto simp: write_graph_def Let_def split: option.splits)

lemma matrix_exported: "fst (generate_graph_json movies_env (lit ''The Matrix'') w0) = True"
  by code_simp

lemma no_such_movie: "run_export movies_env (lit ''Nowhere'') = Inr []"
  by (simp add: movies_env_def db_env_def export_query_def match_movie_def movies_db_def
      movie_node_def person_node_def node_get_def lit_def)

lemma has_name_props: "has_name p \<Longrightarrow> node_props p \<noteq> []"
  by (auto simp: has_name_def node_get_def)

lemma present_people: "list_all has_name (people rels) \<Longrightarrow> present rels = people rels"
  by (induction rels rule: people.induct) (auto simp: has_name_props)

lemma generate_graph_json_built:
  assumes "generate_graph_json e t w = (True, w')" and "run_export e t = Inr (r # rs)"
  shows "\<exists>title. node_get (er_m r) ''title'' = Some (PStr title) \<and>
           list_all has_name (present (er_director_rels r)) \<and>
           list_all has_name (present (er_actor_rels r)) \<and>
           graph_json w' = Some (Written (graph_of r title))"
proof -
  from generate_graph_json_True [OF assms(1)] assms(2) obtain g where
    b: "build_graph r = Inr g" and w': "graph_json w' = Some (Written g)"
    by auto
  from build_graph_Inr [OF b] w' show ?thesis by auto
qed

lemma matrix_found: "run_export movies_env (lit ''The Matrix'') = Inr [matrix_row]"
  by code_simp

lemma speed_found: "run_export movies_env (lit ''Speed'') = Inr [speed_row]"
  by code_simp

lemma speed_exported: "fst (generate_graph_json movies_env (lit ''Speed'') w0) = True"
  by code_simp

lemma filter_distinct_key:
  "distinct (map f xs) \<Longrightarrow> x \<in> set xs \<Longrightarrow> filter (\<lambda>y. f y = f x) xs = [x]"
proof (induction xs)
  case Nil
  then show ?case by simp
next
  case (Cons a xs)
  show ?case
  proof (cases "a = x")
    case True
    have "f x \<notin> f ` set xs"
      using Cons.prems(1) True by simp
    then have "\<forall>y\<in>set xs. f y \<noteq> f x"
      by (metis imageI)
    then have "filter (\<lambda>y. f y = f x) xs = []"
      by (simp add: filter_empty_conv)
    with True show ?thesis by simp
  next
    case False
    with Cons.prems have "x \<in> set xs" and "f a \<noteq> f x" by auto
    with Cons show ?thesis by simp
  qed
qed

lemma new_nodes_shape:
  "n \<in> set (new_nodes rl ids ps) \<Longrightarrow> \<exists>label. n = PersonNode (gn_id n) label rl"
  by (induction ps arbitrary: ids) (auto split: if_splits)

lemma new_nodes_own:
  "filter (\<lambda>q. person_id_of q = person_id_of p) ps = [p] \<Longrightarrow> person_id_of p \<notin> ids \<Longrightarrow>
   PersonNode (person_id_of p) (name_str p) rl \<in> set (new_nodes rl ids ps)"
proof (induction ps arbitrary: ids)
  case Nil
  then show ?case by simp
next
  case (Cons q ps)
  show ?case
  proof (cases "person_id_of q = person_id_of p")
    case True
    with Cons.prems(1) have "q = p" by simp
    with Cons.prems(2) show ?thesis by simp
  next
    case False
    with Cons.prems(1) have f: "filter (\<lambda>q. person_id_of q = person_id_of p) ps = [p]" by simp
    have "person_id_of p \<notin> insert (person_id_of q) ids" using False Cons.prems(2) by auto
    from Cons.IH [OF f this] Cons.IH [OF f Cons.prems(2)] show ?thesis by simp
  qed
qed

lemma links_of_person:
  "filter (\<lambda>l. source l = i) (g_links (graph_of r title)) =
     map (link_of DIRECTED (movie_id_of r))
       (filter (\<lambda>q. person_id_of q = i) (present (er_director_rels r))) @
     map (link_of ACTED_IN (movie_id_of r))
       (filter (\<lambda>q. person_id_of q = i) (present (er_actor_rels r)))"
  by (simp add: graph_of_def filter_map comp_def link_of_def)

lemma person_node_of_director:
  assumes "p \<in> set (present (er_director_rels r))"
  shows "\<exists>label. filter (\<lambda>n. gn_id n = person_id_of p) (g_nodes (graph_of r title)) =
           [PersonNode (person_id_of p) label Director]"
proof -
  let ?m = "movie_id_of r"
  let ?D = "new_nodes Director {?m} (present (er_director_rels r))"
  let ?A = "new_nodes Actor (insert ?m (set (map person_id_of (present (er_director_rels r)))))
              (present (er_actor_rels r))"
  have "person_id_of p \<in> gn_id ` set ?D"
    using assms movie_id_not_person_id [of r p] by (auto simp: ids_new_nodes)
  then obtain n where n: "n \<in> set ?D" and id: "gn_id n = person_id_of p" by auto
  have "filter (\<lambda>y. gn_id y = gn_id n) ?D = [n]"
    using distinct_new_nodes n by (rule filter_distinct_key)
  then have d: "filter (\<lambda>y. gn_id y = person_id_of p) ?D = [n]" by (simp add: id)
  have a: "filter (\<lambda>y. gn_id y = person_id_of p) ?A = []"
    using assms new_nodes_id [of _ Actor _ "present (er_actor_rels r)"]
    by (fastforce simp: filter_empty_conv)
  from new_nodes_shape [OF n] id obtain label where "n = PersonNode (person_id_of p) label Director"
    by auto
  with d a movie_id_not_person_id [of r p] show ?thesis
    by (auto simp: graph_of_def)
qed

section \<open>The export query\<close>

lemma collect_distinct_distinct: "distinct (collect_distinct xs)"
  by (simp add: collect_distinct_def)

lemma collect_distinct_set: "set (collect_distinct xs) = set xs"
  by (simp add: collect_distinct_def)

lemma optional_match_not_empty: "optional_match g ty m \<noteq> []"
  by (simp add: optional_match_def)

lemma match_rows_fst: "set (map fst (match_rows g m)) = set (optional_match g ''DIRECTED'' m)"
  using optional_match_not_empty [of g "''ACTED_IN''" m]
  by (cases "optional_match g ''ACTED_IN'' m") (auto simp: match_rows_def image_iff)

lemma match_rows_snd: "set (map snd (match_rows g m)) = set (optional_match g ''ACTED_IN'' m)"
  using optional_match_not_empty [of g "''DIRECTED''" m]
  by (cases "optional_match g ''DIRECTED'' m") (auto simp: match_rows_def image_iff)

lemma export_query_row:
  assumes "r \<in> set (export_query g title)"
  shows "distinct (er_director_rels r) \<and> distinct (er_actor_rels r) \<and>
         set (er_director_rels r) = set (optional_match g ''DIRECTED'' (er_m r)) \<and>
         set (er_actor_rels r) = set (optional_match g ''ACTED_IN'' (er_m r))"
proof -
  from assms obtain m where
    "r = \<lparr>er_m = m,
          er_director_rels = collect_distinct (map fst (match_rows g m)),
          er_actor_rels = collect_distinct (map snd (match_rows g m))\<rparr>"
    by (auto simp: export_query_def)
  then show ?thesis
    using match_rows_fst [of g m] match_rows_snd [of g m]
    by (simp add: collect_distinct_distinct collect_distinct_set)
qed

section \<open>The detail mapping and the detail query\<close>

lemma not_none_no_None: "None \<notin> set (not_none xs)"
  by (simp add: not_none_def)

lemma not_none_placeholders: "list_all (\<lambda>x. x = None) xs \<Longrightarrow> not_none xs = []"
  by (simp add: not_none_def list_all_iff filter_empty_conv)

text \<open>In the detail query itself, a movie without directors has an empty collection.\<close>

lemma collect_names_placeholder: "set ps \<subseteq> {None} \<Longrightarrow> collect_names ps = []"
proof -
  assume "set ps \<subseteq> {None}"
  then have "filter (\<lambda>n. n \<noteq> None) (map name_of ps) = []"
    by (auto simp: filter_empty_conv name_of_def)
  then show ?thesis by (simp add: collect_names_def collect_distinct_def)
qed

lemma detail_query_no_directors:
  assumes "\<forall>m\<in>set (match_movie g title). related g ''DIRECTED'' m = []"
    and "r \<in> set (detail_query g title)"
  shows "dr_directors r = []"
proof -
  have "set (map fst (match_rows g m)) \<subseteq> {None}" if "m \<in> set (match_movie g title)" for m
    using assms(1) that unfolding match_rows_fst by (simp add: optional_match_def)
  then have "set (concat (map (\<lambda>m. map fst (match_rows g m))
                    (filter (\<lambda>m. group_key m = k) (match_movie g title)))) \<subseteq> {None}" for k
    by auto
  then show ?thesis
    using assms(2) by (auto simp: detail_query_def collect_names_placeholder)
qed

text \<open>
  So for a movie in the graph that no \<open>DIRECTED\<close> relationship reaches, the details
  list no director.
\<close>

lemma get_movie_details_no_directors:
  assumes "run_detail e title = Inr (detail_query g title)"
    and "match_movie g title \<noteq> []"
    and "\<forall>m\<in>set (match_movie g title). related g ''DIRECTED'' m = []"
  shows "\<exists>d. fst (get_movie_details e title w) = Some d \<and> md_directors d = []"
proof -
  from assms(2) obtain r rs where r: "detail_query g title = r # rs"
    by (cases "detail_query g title") (auto simp: detail_query_def collect_distinct_def)
  then have "r \<in> set (detail_query g title)" by simp
  with assms(3) have "dr_directors r = []" by (rule detail_query_no_directors)
  then show ?thesis
    using assms(1) r by (simp add: get_movie_details_def detail_of_def not_none_def)
qed

section \<open>Facts about the example data\<close>

lemma speed_people:
  "list_all has_name (people (er_director_rels speed_row) @ people (er_actor_rels speed_row))"
  "distinct (map person_id_of (people (er_director_rels speed_row) @ people (er_actor_rels speed_row)))"
  "length (people (er_director_rels speed_row)) = 1"
  "length (people (er_actor_rels speed_row)) = 2"
  by (simp_all add: speed_row_def person_node_def has_name_def node_get_def person_id_of_def
      name_str_def replace_space_def lit_def)

lemma lana_ids:
  "person_id_of (person_node 1 ''Lana Wachowski'') = lit ''person_Lana_Wachowski''"
  "name_str (person_node 1 ''Lana Wachowski'') = lit ''Lana Wachowski''"
  "movie_id_of matrix_row = lit ''movie_The_Matrix''"
  by (simp_all add: person_id_of_def movie_id_of_def matrix_row_def movie_node_def name_str_def
      person_node_def node_get_def replace_space_def lit_def)

lemma lana_own:
  "filter (\<lambda>q. person_id_of q = person_id_of (person_node 1 ''Lana Wachowski''))
     (present (er_director_rels matrix_row)) = [person_node 1 ''Lana Wachowski'']"
  "filter (\<lambda>q. person_id_of q = person_id_of (person_node 1 ''Lana Wachowski''))
     (present (er_actor_rels matrix_row)) = [person_node 1 ''Lana Wachowski'']"
  by (simp_all add: matrix_row_def person_id_of_def name_str_def
      person_node_def node_get_def replace_space_def lit_def)

lemma duel_exported:
  "generate_graph_json twice_env (lit ''Duel'') w0 =
     (True, \<lparr>queries = [(ExportQuery, lit ''Duel'')], console = [], exports_dir = True,
             graph_json = Some (Written duel_graph)\<rparr>)"
  by code_simp

lemma namesake_exported:
  "generate_graph_json namesake_env (lit ''Duel'') w0 =
     (True, \<lparr>queries = [(ExportQuery, lit ''Duel'')], console = [], exports_dir = True,
             graph_json = Some (Written namesake_graph)\<rparr>)"
  by code_simp

lemma namesake_found: "run_export namesake_env (lit ''Duel'') = Inr [namesake_row]"
  by code_simp

lemma namesake_query: "export_query namesake_db (lit ''Duel'') = [namesake_row]"
  by code_simp

lemma namesake_present:
  "present (er_director_rels namesake_row) = []"
  "present (er_actor_rels namesake_row) = [person_node 1 ''Dennis Weaver'', person_node 2 ''Dennis Weaver'']"
  by (simp_all add: namesake_row_def person_node_def)

lemma duel_rels:
  "db_rels twice_db = [mk_rel ''ACTED_IN'' 1 0, mk_rel ''ACTED_IN'' 1 0]"
  by (simp add: twice_db_def mk_rel_def)

lemma matrix_term: "strip (lit ''Matrix'') = lit ''Matrix''"
  by (simp add: strip_def lit_def isspace_def)

lemma refused_runs:
  "run_search refused_env t = Inl ServiceUnavailable"
  "run_detail refused_env t = Inl ServiceUnavailable"
  "run_export refused_env t = Inl ServiceUnavailable"
  by (simp_all add: refused_env_def)

lemma empty_runs:
  "run_search empty_env t = Inr []"
  "run_detail empty_env t = Inr []"
  "run_export empty_env t = Inr []"
  by (simp_all add: empty_env_def db_env_def detail_query_def export_query_def match_movie_def
      collect_distinct_def)

lemma readonly_fails:
  "makedirs_error readonly_env \<noteq> None \<or> open_error readonly_env \<noteq> None \<or>
   write_error readonly_env \<noteq> None"
  by (simp add: readonly_env_def)

lemma placeholder_run: "run_detail placeholder_env t = Inr [placeholder_row]"
  by (simp add: placeholder_env_def)

section \<open>The specified properties\<close>

text \<open>
  C1 (amended). The specification asks that a failure of the infrastructure reach the
  caller as something else than "not found", but each operation catches every exception
  itself. What holds, for each operation on its own: when its query fails, the operation
  returns what it returns when its query finds nothing (\<open>[]\<close> for the search, \<open>None\<close>
  for the details, \<open>False\<close> for the export), and it leaves the world as the call that
  finds nothing leaves it (the query is logged, the directory and the file are
  untouched) except for the console: the failing call appends one line that names the
  exception, the call that finds nothing prints nothing. The export also returns
  \<open>False\<close> whenever creating the directory, opening the file or writing to it fails.
\<close>

theorem failures_returned_as_absence:
  assumes nb: "strip search_term \<noteq> []"
    and sf: "run_search e1 (strip search_term) = Inl x1"
    and se: "run_search e1' (strip search_term) = Inr []"
    and df: "run_detail e2 movie_title = Inl x2"
    and de: "run_detail e2' movie_title = Inr []"
    and gf: "run_export e3 movie_title = Inl x3"
    and ge: "run_export e3' movie_title = Inr []"
    and ff: "makedirs_error e4 \<noteq> None \<or> open_error e4 \<noteq> None \<or> write_error e4 \<noteq> None"
  shows "search_movies e1 search_term w =
           ([], (sent SearchQuery (strip search_term) w)
                  \<lparr>console := console w @ [SearchFailed x1]\<rparr>) \<and>
         search_movies e1' search_term w = ([], sent SearchQuery (strip search_term) w) \<and>
         console (sent SearchQuery (strip search_term) w) = console w \<and>
         get_movie_details e2 movie_title w =
           (None, (sent DetailQuery movie_title w)\<lparr>console := console w @ [DetailFailed x2]\<rparr>) \<and>
         get_movie_details e2' movie_title w = (None, sent DetailQuery movie_title w) \<and>
         console (sent DetailQuery movie_title w) = console w \<and>
         generate_graph_json e3 movie_title w =
           (False, (sent ExportQuery movie_title w)\<lparr>console := console w @ [GraphFailed x3]\<rparr>) \<and>
         generate_graph_json e3' movie_title w = (False, sent ExportQuery movie_title w) \<and>
         console (sent ExportQuery movie_title w) = console w \<and>
         exports_dir (sent ExportQuery movie_title w) = exports_dir w \<and>
         graph_json (sent ExportQuery movie_title w) = graph_json w \<and>
         fst (generate_graph_json e4 movie_title w) = False"
proof -
  have ne: "search_term \<noteq> []" using nb by (auto simp: strip_def)
  have s: "search_movies e1 search_term w =
           ([], (sent SearchQuery (strip search_term) w)
                  \<lparr>console := console w @ [SearchFailed x1]\<rparr>)"
    "search_movies e1' search_term w = ([], sent SearchQuery (strip search_term) w)"
    using nb ne sf se by (simp_all add: search_movies_def printed_def sent_def)
  have d: "get_movie_details e2 movie_title w =
           (None, (sent DetailQuery movie_title w)\<lparr>console := console w @ [DetailFailed x2]\<rparr>)"
    "get_movie_details e2' movie_title w = (None, sent DetailQuery movie_title w)"
    using df de by (simp_all add: get_movie_details_def printed_def sent_def)
  have g: "generate_graph_json e3 movie_title w =
           (False, (sent ExportQuery movie_title w)\<lparr>console := console w @ [GraphFailed x3]\<rparr>)"
    "generate_graph_json e3' movie_title w = (False, sent ExportQuery movie_title w)"
    using gf ge by (simp_all add: generate_graph_json_def printed_def sent_def)
  have c: "console (sent q p w) = console w" "exports_dir (sent q p w) = exports_dir w"
    "graph_json (sent q p w) = graph_json w" for q p
    by (simp_all add: sent_def)
  have f: "fst (generate_graph_json e4 movie_title w) = False"
    using write_graph_fails [OF ff]
    by (simp add: generate_graph_json_def split: sum.splits option.splits)
  from s d g c f show ?thesis by simp
qed


theorem failures_returned_as_absence_witness:
  "search_movies refused_env (lit ''Matrix'') w0 =
     ([], \<lparr>queries = [(SearchQuery, lit ''Matrix'')], console = [SearchFailed ServiceUnavailable],
           exports_dir = False, graph_json = None\<rparr>) \<and>
   search_movies empty_env (lit ''Matrix'') w0 =
     ([], \<lparr>queries = [(SearchQuery, lit ''Matrix'')], console = [],
           exports_dir = False, graph_json = None\<rparr>) \<and>
   get_movie_details refused_env (lit ''The Matrix'') w0 =
     (None, \<lparr>queries = [(DetailQuery, lit ''The Matrix'')], console = [DetailFailed ServiceUnavailable],
             exports_dir = False, graph_json = None\<rparr>) \<and>
   get_movie_details empty_env (lit ''The Matrix'') w0 =
     (None, \<lparr>queries = [(DetailQuery, lit ''The Matrix'')], console = [],
             exports_dir = False, graph_json = None\<rparr>) \<and>
   generate_graph_json refused_env (lit ''The Matrix'') w0 =
     (False, \<lparr>queries = [(ExportQuery, lit ''The Matrix'')], console = [GraphFailed ServiceUnavailable],
              exports_dir = False, graph_json = None\<rparr>) \<and>
   generate_graph_json empty_env (lit ''The Matrix'') w0 =
     (False, \<lparr>queries = [(ExportQuery, lit ''The Matrix'')], console = [],
              exports_dir = False, graph_json = None\<rparr>) \<and>
   fst (generate_graph_json readonly_env (lit ''The Matrix'') w0) = False"
proof -
  have h: "strip (lit ''Matrix'') \<noteq> []" by (simp add: matrix_term) (simp add: lit_def)
  from failures_returned_as_absence [where search_term = "lit ''Matrix''"
      and movie_title = "lit ''The Matrix''" and w = w0,
      OF h refused_runs(1) empty_runs(1) refused_runs(2) empty_runs(2) refused_runs(3)
      empty_runs(3) readonly_fails]
  show ?thesis by (simp add: matrix_term sent_def w0_def)
qed

text \<open>
  C1 as the specification states it fails: a store that refuses the connection and a store
  that holds no movie give the caller the same values.
\<close>

theorem failures_returned_as_absence_counterexample:
  "run_search refused_env (strip (lit ''Matrix'')) = Inl ServiceUnavailable \<and>
   run_search empty_env (strip (lit ''Matrix'')) = Inr [] \<and>
   fst (search_movies refused_env (lit ''Matrix'') w0) = fst (search_movies empty_env (lit ''Matrix'') w0) \<and>
   run_detail refused_env (lit ''The Matrix'') = Inl ServiceUnavailable \<and>
   run_detail empty_env (lit ''The Matrix'') = Inr [] \<and>
   fst (get_movie_details refused_env (lit ''The Matrix'') w0) =
     fst (get_movie_details empty_env (lit ''The Matrix'') w0) \<and>
   run_export refused_env (lit ''The Matrix'') = Inl ServiceUnavailable \<and>
   run_export empty_env (lit ''The Matrix'') = Inr [] \<and>
   generate_graph_json refused_env (lit ''The Matrix'') w0 =
     (False, \<lparr>queries = [(ExportQuery, lit ''The Matrix'')], console = [GraphFailed ServiceUnavailable],
              exports_dir = False, graph_json = None\<rparr>) \<and>
   generate_graph_json empty_env (lit ''The Matrix'') w0 =
     (False, \<lparr>queries = [(ExportQuery, lit ''The Matrix'')], console = [],
              exports_dir = False, graph_json = None\<rparr>)"
proof -
  have ne: "lit ''Matrix'' \<noteq> []" by (simp add: lit_def)
  have "fst (search_movies refused_env (lit ''Matrix'') w0) = fst (search_movies empty_env (lit ''Matrix'') w0)"
    using ne by (simp add: search_movies_def matrix_term refused_runs empty_runs)
  moreover have "fst (get_movie_details refused_env (lit ''The Matrix'') w0) =
     fst (get_movie_details empty_env (lit ''The Matrix'') w0)"
    by (simp add: get_movie_details_def refused_runs empty_runs)
  moreover have "generate_graph_json refused_env (lit ''The Matrix'') w0 =
     (False, \<lparr>queries = [(ExportQuery, lit ''The Matrix'')], console = [GraphFailed ServiceUnavailable],
              exports_dir = False, graph_json = None\<rparr>)"
    by (simp add: generate_graph_json_def refused_runs printed_def sent_def w0_def)
  moreover have "generate_graph_json empty_env (lit ''The Matrix'') w0 =
     (False, \<lparr>queries = [(ExportQuery, lit ''The Matrix'')], console = [],
              exports_dir = False, graph_json = None\<rparr>)"
    by (simp add: generate_graph_json_def empty_runs printed_def sent_def w0_def)
  ultimately show ?thesis
    by (simp add: refused_runs empty_runs)
qed

text \<open>
  C2 (amended). The specification promises one link for each relationship in the
  underlying data. What holds has two parts. For any record the export receives, a
  successful export writes one link for every entry that its loops process, that is,
  every entry of \<open>director_rels\<close> and \<open>actor_rels\<close> whose person is not \<open>None\<close> and has at
  least one property, in the order of the entries and the \<open>DIRECTED\<close> links first; the
  loops remove no link, so two processed entries with the same derived id give two equal
  links. And in every record that the export query returns from a graph, each collection
  lists every related person node (or the one placeholder) exactly once, however many
  relationships of that type join the person to the movie, because the query collects
  \<open>DISTINCT {person, rel}\<close> maps.
\<close>

theorem export_links:
  assumes ok: "generate_graph_json e movie_title w = (True, w')"
    and found: "run_export e movie_title = Inr (r # rs)"
    and row: "r' \<in> set (export_query g title')"
  shows "(\<exists>graph_data. graph_json w' = Some (Written graph_data) \<and>
            g_links graph_data =
              map (link_of DIRECTED (movie_id_of r)) (present (er_director_rels r)) @
              map (link_of ACTED_IN (movie_id_of r)) (present (er_actor_rels r))) \<and>
         distinct (er_director_rels r') \<and> distinct (er_actor_rels r') \<and>
         set (er_director_rels r') = set (optional_match g ''DIRECTED'' (er_m r')) \<and>
         set (er_actor_rels r') = set (optional_match g ''ACTED_IN'' (er_m r'))"
proof -
  from generate_graph_json_built [OF ok found] obtain title where
    "graph_json w' = Some (Written (graph_of r title))" by blast
  moreover have "g_links (graph_of r title) =
              map (link_of DIRECTED (movie_id_of r)) (present (er_director_rels r)) @
              map (link_of ACTED_IN (movie_id_of r)) (present (er_actor_rels r))"
    by (simp add: graph_of_def)
  ultimately show ?thesis using export_query_row [OF row] by blast
qed

theorem export_links_witness:
  "generate_graph_json namesake_env (lit ''Duel'') w0 =
     (True, \<lparr>queries = [(ExportQuery, lit ''Duel'')], console = [], exports_dir = True,
             graph_json = Some (Written namesake_graph)\<rparr>) \<and>
   run_export namesake_env (lit ''Duel'') = Inr [namesake_row] \<and>
   namesake_row \<in> set (export_query namesake_db (lit ''Duel'')) \<and>
   present (er_director_rels namesake_row) = [] \<and>
   present (er_actor_rels namesake_row) =
     [person_node 1 ''Dennis Weaver'', person_node 2 ''Dennis Weaver''] \<and>
   g_links namesake_graph =
     map (link_of DIRECTED (movie_id_of namesake_row)) (present (er_director_rels namesake_row)) @
     map (link_of ACTED_IN (movie_id_of namesake_row)) (present (er_actor_rels namesake_row)) \<and>
   length (g_links namesake_graph) = 2 \<and>
   distinct (er_director_rels namesake_row) \<and> distinct (er_actor_rels namesake_row) \<and>
   set (er_director_rels namesake_row) =
     set (optional_match namesake_db ''DIRECTED'' (er_m namesake_row)) \<and>
   set (er_actor_rels namesake_row) =
     set (optional_match namesake_db ''ACTED_IN'' (er_m namesake_row))"
proof -
  have row: "namesake_row \<in> set (export_query namesake_db (lit ''Duel''))"
    by (simp add: namesake_query)
  have len: "length (g_links namesake_graph) = 2" by (simp add: namesake_graph_def)
  from export_links [OF namesake_exported namesake_found row]
  show ?thesis using namesake_exported namesake_found row namesake_present len by simp
qed

text \<open>
  C2 as the specification states it fails: the data holds two \<open>ACTED_IN\<close> relationships
  between the same person and the same movie, and the exported graph has one
  \<open>ACTED_IN\<close> link.
\<close>

theorem export_links_counterexample:
  "db_rels twice_db = [mk_rel ''ACTED_IN'' 1 0, mk_rel ''ACTED_IN'' 1 0] \<and>
   generate_graph_json twice_env (lit ''Duel'') w0 =
     (True, \<lparr>queries = [(ExportQuery, lit ''Duel'')], console = [], exports_dir = True,
             graph_json = Some (Written duel_graph)\<rparr>) \<and>
   g_links duel_graph =
     [\<lparr>source = lit ''person_Dennis_Weaver'', target = lit ''movie_Duel'', link_type = ACTED_IN\<rparr>]"
  using duel_rels duel_exported by (simp add: duel_graph_def)

text \<open>
  C3 (amended). The specification counts one node for each distinct person, but the
  loops tell people apart by the id derived from the name alone, so that two directors called
  \<open>A B\<close> and \<open>A_B\<close> share one node. What holds: when every director and actor of the
  record has a string name and the ids derived from these names are pairwise different
  (so that nobody is both director and actor either), a successful export writes a graph
  with \<open>1 + N + M\<close> nodes and \<open>N + M\<close> links, for \<open>N\<close> directors and \<open>M\<close> actors.
\<close>

theorem export_counts:
  assumes ok: "generate_graph_json e movie_title w = (True, w')"
    and found: "run_export e movie_title = Inr (r # rs)"
    and named: "list_all has_name (people (er_director_rels r) @ people (er_actor_rels r))"
    and ids: "distinct (map person_id_of (people (er_director_rels r) @ people (er_actor_rels r)))"
  shows "\<exists>g. graph_json w' = Some (Written g) \<and>
           length (g_nodes g) =
             1 + length (people (er_director_rels r)) + length (people (er_actor_rels r)) \<and>
           length (g_links g) =
             length (people (er_director_rels r)) + length (people (er_actor_rels r))"
proof -
  from generate_graph_json_built [OF ok found] obtain title where
    w': "graph_json w' = Some (Written (graph_of r title))" by blast
  let ?D = "people (er_director_rels r)" and ?A = "people (er_actor_rels r)"
  have pd: "present (er_director_rels r) = ?D" and pa: "present (er_actor_rels r) = ?A"
    using named by (simp_all add: present_people)
  have dd: "distinct (map person_id_of ?D)" and da: "distinct (map person_id_of ?A)"
    and disj: "person_id_of ` set ?D \<inter> person_id_of ` set ?A = {}"
    using ids by auto
  have nd: "new_nodes Director {movie_id_of r} ?D =
              map (\<lambda>p. PersonNode (person_id_of p) (name_str p) Director) ?D"
    using dd by (rule new_nodes_fresh) (use movie_id_not_person_id in auto)
  have na: "new_nodes Actor (insert (movie_id_of r) (person_id_of ` set ?D)) ?A =
              map (\<lambda>p. PersonNode (person_id_of p) (name_str p) Actor) ?A"
    using da by (rule new_nodes_fresh) (use movie_id_not_person_id disj in auto)
  have "length (g_nodes (graph_of r title)) = 1 + length ?D + length ?A"
    by (simp add: graph_of_def pd pa nd na)
  moreover have "length (g_links (graph_of r title)) = length ?D + length ?A"
    by (simp add: graph_of_def pd pa)
  ultimately show ?thesis using w' by blast
qed

theorem export_counts_witness:
  "fst (generate_graph_json movies_env (lit ''Speed'') w0) = True \<and>
   run_export movies_env (lit ''Speed'') = Inr [speed_row] \<and>
   list_all has_name (people (er_director_rels speed_row) @ people (er_actor_rels speed_row)) \<and>
   distinct (map person_id_of (people (er_director_rels speed_row) @ people (er_actor_rels speed_row))) \<and>
   (\<exists>g. graph_json (snd (generate_graph_json movies_env (lit ''Speed'') w0)) = Some (Written g) \<and>
        length (g_nodes g) = 4 \<and> length (g_links g) = 3)"
proof -
  have ok: "generate_graph_json movies_env (lit ''Speed'') w0 =
          (True, snd (generate_graph_json movies_env (lit ''Speed'') w0))"
    using speed_exported by (metis prod.collapse)
  from export_counts [OF ok speed_found speed_people(1) speed_people(2)]
  obtain g where g: "graph_json (snd (generate_graph_json movies_env (lit ''Speed'') w0)) = Some (Written g)"
    and n: "length (g_nodes g) =
              1 + length (people (er_director_rels speed_row)) + length (people (er_actor_rels speed_row))"
    and l: "length (g_links g) =
              length (people (er_director_rels speed_row)) + length (people (er_actor_rels speed_row))"
    by blast
  have "length (g_nodes g) = 4" unfolding n speed_people(3,4) by simp
  moreover have "length (g_links g) = 3" unfolding l speed_people(3,4) by simp
  ultimately show ?thesis
    using g speed_exported speed_found speed_people(1,2) by blast
qed

text \<open>
  C3 as the specification states it fails: a movie with two different directors (different
  nodes, different names) and no actor is exported with two nodes, not three.
\<close>

theorem export_counts_counterexample:
  "related collide_db ''DIRECTED'' (movie_node 0 ''Pair'' 2001) =
     [person_node 1 ''A B'', person_node 2 ''A_B''] \<and>
   related collide_db ''ACTED_IN'' (movie_node 0 ''Pair'' 2001) = [] \<and>
   name_str (person_node 1 ''A B'') \<noteq> name_str (person_node 2 ''A_B'') \<and>
   generate_graph_json collide_env (lit ''Pair'') w0 =
     (True, \<lparr>queries = [(ExportQuery, lit ''Pair'')], console = [], exports_dir = True,
        graph_json = Some (Written
          \<lparr>g_nodes = [MovieNode (lit ''movie_Pair'') (lit ''Pair'') (Some (PInt 2001)) None,
                      PersonNode (lit ''person_A_B'') (lit ''A B'') Director],
            g_links = [\<lparr>source = lit ''person_A_B'', target = lit ''movie_Pair'', link_type = DIRECTED\<rparr>,
                       \<lparr>source = lit ''person_A_B'', target = lit ''movie_Pair'', link_type = DIRECTED\<rparr>]\<rparr>)\<rparr>)"
proof -
  have "related collide_db ''DIRECTED'' (movie_node 0 ''Pair'' 2001) =
     [person_node 1 ''A B'', person_node 2 ''A_B'']"
    and "related collide_db ''ACTED_IN'' (movie_node 0 ''Pair'' 2001) = []"
    by (simp_all add: related_def collide_db_def movie_node_def person_node_def mk_rel_def lit_def)
  moreover have "name_str (person_node 1 ''A B'') \<noteq> name_str (person_node 2 ''A_B'')"
    by (simp add: name_str_def person_node_def node_get_def lit_def)
  moreover have "generate_graph_json collide_env (lit ''Pair'') w0 =
     (True, \<lparr>queries = [(ExportQuery, lit ''Pair'')], console = [], exports_dir = True,
        graph_json = Some (Written
          \<lparr>g_nodes = [MovieNode (lit ''movie_Pair'') (lit ''Pair'') (Some (PInt 2001)) None,
                      PersonNode (lit ''person_A_B'') (lit ''A B'') Director],
            g_links = [\<lparr>source = lit ''person_A_B'', target = lit ''movie_Pair'', link_type = DIRECTED\<rparr>,
                       \<lparr>source = lit ''person_A_B'', target = lit ''movie_Pair'', link_type = DIRECTED\<rparr>]\<rparr>)\<rparr>)"
    by code_simp
  ultimately show ?thesis by blast
qed

text \<open>
  C4 (amended). The specification promises one \<open>Person\<close> node and two links for every
  person who both directs and acts. What holds: let a person be among the entries that
  the loops process (not \<open>None\<close>, at least one property) of both \<open>director_rels\<close> and
  \<open>actor_rels\<close>, and be in each of the two the only processed entry with its derived id.
  Then a successful export (which implies that the person's name is a string) writes
  exactly one node with that id, a \<open>Person\<close> node labelled with the person's name and
  with role \<open>Director\<close>, and exactly two links that leave this id: one \<open>DIRECTED\<close> and
  one \<open>ACTED_IN\<close> link to the movie, in this order.
\<close>

theorem director_and_actor:
  assumes ok: "generate_graph_json e movie_title w = (True, w')"
    and found: "run_export e movie_title = Inr (r # rs)"
    and d: "filter (\<lambda>q. person_id_of q = person_id_of p) (present (er_director_rels r)) = [p]"
    and a: "filter (\<lambda>q. person_id_of q = person_id_of p) (present (er_actor_rels r)) = [p]"
  shows "\<exists>g. graph_json w' = Some (Written g) \<and> has_name p \<and>
           filter (\<lambda>n. gn_id n = person_id_of p) (g_nodes g) =
             [PersonNode (person_id_of p) (name_str p) Director] \<and>
           filter (\<lambda>l. source l = person_id_of p) (g_links g) =
             [\<lparr>source = person_id_of p, target = movie_id_of r, link_type = DIRECTED\<rparr>,
              \<lparr>source = person_id_of p, target = movie_id_of r, link_type = ACTED_IN\<rparr>]"
proof -
  from generate_graph_json_built [OF ok found] obtain title where
    w': "graph_json w' = Some (Written (graph_of r title))"
    and all_named: "list_all has_name (present (er_director_rels r))" by blast
  have pd: "p \<in> set (present (er_director_rels r))"
  proof -
    have "p \<in> set (filter (\<lambda>q. person_id_of q = person_id_of p) (present (er_director_rels r)))"
      unfolding d by simp
    then show ?thesis by simp
  qed
  from person_node_of_director [OF pd, of title] obtain label where
    one: "filter (\<lambda>n. gn_id n = person_id_of p) (g_nodes (graph_of r title)) =
            [PersonNode (person_id_of p) label Director]" by blast
  have "PersonNode (person_id_of p) (name_str p) Director
          \<in> set (new_nodes Director {movie_id_of r} (present (er_director_rels r)))"
    using d by (rule new_nodes_own) (use movie_id_not_person_id [of r p] in simp)
  then have "PersonNode (person_id_of p) (name_str p) Director \<in> set (g_nodes (graph_of r title))"
    by (simp add: graph_of_def)
  then have "PersonNode (person_id_of p) (name_str p) Director
               \<in> set (filter (\<lambda>n. gn_id n = person_id_of p) (g_nodes (graph_of r title)))"
    by simp
  with one have nodes: "filter (\<lambda>n. gn_id n = person_id_of p) (g_nodes (graph_of r title)) =
            [PersonNode (person_id_of p) (name_str p) Director]"
    by simp
  have "filter (\<lambda>l. source l = person_id_of p) (g_links (graph_of r title)) =
             [\<lparr>source = person_id_of p, target = movie_id_of r, link_type = DIRECTED\<rparr>,
              \<lparr>source = person_id_of p, target = movie_id_of r, link_type = ACTED_IN\<rparr>]"
    unfolding links_of_person d a by (simp add: link_of_def)
  moreover have "has_name p" using all_named pd by (simp add: list_all_iff)
  ultimately show ?thesis using w' nodes by blast
qed

theorem director_and_actor_witness:
  "fst (generate_graph_json movies_env (lit ''The Matrix'') w0) = True \<and>
   run_export movies_env (lit ''The Matrix'') = Inr [matrix_row] \<and>
   filter (\<lambda>q. person_id_of q = person_id_of (person_node 1 ''Lana Wachowski''))
     (present (er_director_rels matrix_row)) = [person_node 1 ''Lana Wachowski''] \<and>
   filter (\<lambda>q. person_id_of q = person_id_of (person_node 1 ''Lana Wachowski''))
     (present (er_actor_rels matrix_row)) = [person_node 1 ''Lana Wachowski''] \<and>
   (\<exists>g. graph_json (snd (generate_graph_json movies_env (lit ''The Matrix'') w0)) = Some (Written g) \<and>
      has_name (person_node 1 ''Lana Wachowski'') \<and>
      filter (\<lambda>n. gn_id n = lit ''person_Lana_Wachowski'') (g_nodes g) =
        [PersonNode (lit ''person_Lana_Wachowski'') (lit ''Lana Wachowski'') Director] \<and>
      filter (\<lambda>l. source l = lit ''person_Lana_Wachowski'') (g_links g) =
        [\<lparr>source = lit ''person_Lana_Wachowski'', target = lit ''movie_The_Matrix'', link_type = DIRECTED\<rparr>,
         \<lparr>source = lit ''person_Lana_Wachowski'', target = lit ''movie_The_Matrix'', link_type = ACTED_IN\<rparr>])"
proof -
  have ok: "generate_graph_json movies_env (lit ''The Matrix'') w0 =
          (True, snd (generate_graph_json movies_env (lit ''The Matrix'') w0))"
    using matrix_exported by (metis prod.collapse)
  from director_and_actor [OF ok matrix_found lana_own]
  show ?thesis
    using matrix_exported matrix_found lana_own unfolding lana_ids by blast
qed

text \<open>
  C4 as the specification states it fails, in two ways. A person node without any
  property directs and acts in a movie: the export succeeds and writes the movie node
  alone, no node and no link for the person. And a director who also acts shares the
  derived id with a second director: three links leave the one node of that id.
\<close>

theorem director_and_actor_counterexample:
  "related bare_db ''DIRECTED'' (movie_node 0 ''Solo'' 2018) = [bare_person] \<and>
   related bare_db ''ACTED_IN'' (movie_node 0 ''Solo'' 2018) = [bare_person] \<and>
   generate_graph_json bare_env (lit ''Solo'') w0 =
     (True, \<lparr>queries = [(ExportQuery, lit ''Solo'')], console = [], exports_dir = True,
        graph_json = Some (Written
          \<lparr>g_nodes = [MovieNode (lit ''movie_Solo'') (lit ''Solo'') (Some (PInt 2018)) None],
            g_links = []\<rparr>)\<rparr>) \<and>
   related shared_db ''DIRECTED'' (movie_node 0 ''Pair'' 2001) =
     [person_node 1 ''A B'', person_node 2 ''A_B''] \<and>
   related shared_db ''ACTED_IN'' (movie_node 0 ''Pair'' 2001) = [person_node 1 ''A B''] \<and>
   generate_graph_json shared_env (lit ''Pair'') w0 =
     (True, \<lparr>queries = [(ExportQuery, lit ''Pair'')], console = [], exports_dir = True,
        graph_json = Some (Written
          \<lparr>g_nodes = [MovieNode (lit ''movie_Pair'') (lit ''Pair'') (Some (PInt 2001)) None,
                      PersonNode (lit ''person_A_B'') (lit ''A B'') Director],
            g_links = [\<lparr>source = lit ''person_A_B'', target = lit ''movie_Pair'', link_type = DIRECTED\<rparr>,
                       \<lparr>source = lit ''person_A_B'', target = lit ''movie_Pair'', link_type = DIRECTED\<rparr>,
                       \<lparr>source = lit ''person_A_B'', target = lit ''movie_Pair'', link_type = ACTED_IN\<rparr>]\<rparr>)\<rparr>)"
proof -
  have "related bare_db ''DIRECTED'' (movie_node 0 ''Solo'' 2018) = [bare_person]"
    and "related bare_db ''ACTED_IN'' (movie_node 0 ''Solo'' 2018) = [bare_person]"
    by (simp_all add: related_def bare_db_def bare_person_def movie_node_def mk_rel_def lit_def)
  moreover have "generate_graph_json bare_env (lit ''Solo'') w0 =
     (True, \<lparr>queries = [(ExportQuery, lit ''Solo'')], console = [], exports_dir = True,
        graph_json = Some (Written
          \<lparr>g_nodes = [MovieNode (lit ''movie_Solo'') (lit ''Solo'') (Some (PInt 2018)) None],
            g_links = []\<rparr>)\<rparr>)"
    by code_simp
  moreover have "related shared_db ''DIRECTED'' (movie_node 0 ''Pair'' 2001) =
     [person_node 1 ''A B'', person_node 2 ''A_B'']"
    and "related shared_db ''ACTED_IN'' (movie_node 0 ''Pair'' 2001) = [person_node 1 ''A B'']"
    by (simp_all add: related_def shared_db_def movie_node_def person_node_def mk_rel_def lit_def)
  moreover have "generate_graph_json shared_env (lit ''Pair'') w0 =
     (True, \<lparr>queries = [(ExportQuery, lit ''Pair'')], console = [], exports_dir = True,
        graph_json = Some (Written
          \<lparr>g_nodes = [MovieNode (lit ''movie_Pair'') (lit ''Pair'') (Some (PInt 2001)) None,
                      PersonNode (lit ''person_A_B'') (lit ''A B'') Director],
            g_links = [\<lparr>source = lit ''person_A_B'', target = lit ''movie_Pair'', link_type = DIRECTED\<rparr>,
                       \<lparr>source = lit ''person_A_B'', target = lit ''movie_Pair'', link_type = DIRECTED\<rparr>,
                       \<lparr>source = lit ''person_A_B'', target = lit ''movie_Pair'', link_type = ACTED_IN\<rparr>]\<rparr>)\<rparr>)"
    by code_simp
  ultimately show ?thesis by blast
qed

text \<open>
  C5: every graph that \<open>generate_graph_json\<close> writes is well-formed. Whenever the export
  returns \<open>True\<close>, the file holds a graph whose node ids are pairwise different and whose
  links all start and end at the id of one of its nodes.
\<close>

theorem export_well_formed:
  assumes "generate_graph_json e movie_title w = (True, w')"
  shows "\<exists>g. graph_json w' = Some (Written g) \<and> well_formed g"
proof -
  from generate_graph_json_True [OF assms] obtain r g where
    b: "build_graph r = Inr g" and w': "graph_json w' = Some (Written g)"
    by auto
  from build_graph_Inr [OF b] obtain title where "g = graph_of r title" by blast
  then have "well_formed g" by (simp add: graph_of_well_formed)
  with w' show ?thesis by blast
qed

theorem export_well_formed_witness:
  "fst (generate_graph_json movies_env (lit ''The Matrix'') w0) = True \<and>
   (\<exists>g. graph_json (snd (generate_graph_json movies_env (lit ''The Matrix'') w0)) = Some (Written g) \<and>
        well_formed g)"
proof -
  have "generate_graph_json movies_env (lit ''The Matrix'') w0 =
          (True, snd (generate_graph_json movies_env (lit ''The Matrix'') w0))"
    using matrix_exported by (metis prod.collapse)
  from export_well_formed [OF this] matrix_exported show ?thesis by simp
qed

text \<open>
  C6: when the export query returns no record for the title, \<open>generate_graph_json\<close>
  returns \<open>False\<close> and writes nothing: the directory \<open>exports\<close> and the file
  \<open>exports/graph.json\<close> are as they were before the call, and nothing is printed.
\<close>

theorem generate_graph_json_not_found:
  assumes "run_export e movie_title = Inr []"
  shows "fst (generate_graph_json e movie_title w) = False \<and>
         exports_dir (snd (generate_graph_json e movie_title w)) = exports_dir w \<and>
         graph_json (snd (generate_graph_json e movie_title w)) = graph_json w \<and>
         console (snd (generate_graph_json e movie_title w)) = console w"
  using assms by (simp add: generate_graph_json_def sent_def)

theorem generate_graph_json_not_found_witness:
  "run_export movies_env (lit ''Nowhere'') = Inr [] \<and>
   fst (generate_graph_json movies_env (lit ''Nowhere'') w0) = False \<and>
   exports_dir (snd (generate_graph_json movies_env (lit ''Nowhere'') w0)) = exports_dir w0 \<and>
   graph_json (snd (generate_graph_json movies_env (lit ''Nowhere'') w0)) = graph_json w0 \<and>
   console (snd (generate_graph_json movies_env (lit ''Nowhere'') w0)) = console w0"
  using generate_graph_json_not_found [OF no_such_movie, of w0] no_such_movie by simp

text \<open>
  C7: for a search term that is empty or holds white space only, \<open>search_movies\<close>
  returns the empty list and leaves the world as it was: no query is sent to the data
  store (and nothing is printed).
\<close>

theorem search_movies_blank:
  assumes "list_all isspace search_term"
  shows "search_movies e search_term w = ([], w)"
  using strip_whitespace_only [OF assms] by (simp add: search_movies_def)

theorem search_movies_blank_witness:
  "list_all isspace [160, 32, 9] \<and> search_movies movies_env [160, 32, 9] w0 = ([], w0) \<and>
   run_search movies_env [] \<noteq> Inr []"
proof -
  have h: "list_all isspace [160, 32, 9]" by (simp add: isspace_def)
  have "run_search movies_env [] \<noteq> Inr []"
    by (simp add: movies_env_def db_env_def matrix_search_def)
  then show ?thesis using h search_movies_blank [OF h, of movies_env w0] by simp
qed

text \<open>
  C8: when the detail query returns a record for the movie, \<open>get_movie_details\<close>
  returns a detail whose \<open>directors\<close> and \<open>actors\<close> never contain \<open>None\<close>; a collection
  that holds nothing but the \<open>null\<close> placeholder of the outer join (the movie has no
  director, or no actor) becomes the empty list.
\<close>

theorem get_movie_details_no_placeholder:
  assumes "run_detail e movie_title = Inr (r # rs)"
  shows "\<exists>d. get_movie_details e movie_title w = (Some d, sent DetailQuery movie_title w) \<and>
           None \<notin> set (md_directors d) \<and> None \<notin> set (md_actors d) \<and>
           (list_all (\<lambda>x. x = None) (dr_directors r) \<longrightarrow> md_directors d = []) \<and>
           (list_all (\<lambda>x. x = None) (dr_actors r) \<longrightarrow> md_actors d = [])"
proof -
  have "get_movie_details e movie_title w = (Some (detail_of r), sent DetailQuery movie_title w)"
    using assms by (simp add: get_movie_details_def)
  moreover have "None \<notin> set (md_directors (detail_of r))" "None \<notin> set (md_actors (detail_of r))"
    by (simp_all add: detail_of_def not_none_no_None)
  moreover have "list_all (\<lambda>x. x = None) (dr_directors r) \<longrightarrow> md_directors (detail_of r) = []"
    "list_all (\<lambda>x. x = None) (dr_actors r) \<longrightarrow> md_actors (detail_of r) = []"
    by (simp_all add: detail_of_def not_none_placeholders)
  ultimately show ?thesis by blast
qed



theorem get_movie_details_no_placeholder_witness:
  "run_detail placeholder_env (lit ''Untitled'') = Inr [placeholder_row] \<and>
   list_all (\<lambda>x. x = None) (dr_directors placeholder_row) \<and>
   list_all (\<lambda>x. x = None) (dr_actors placeholder_row) \<and>
   (\<exists>d. get_movie_details placeholder_env (lit ''Untitled'') w0 =
           (Some d, sent DetailQuery (lit ''Untitled'') w0) \<and>
        md_directors d = [] \<and> md_actors d = [])"
proof -
  have p: "list_all (\<lambda>x. x = None) (dr_directors placeholder_row)"
    "list_all (\<lambda>x. x = None) (dr_actors placeholder_row)"
    by (simp_all add: placeholder_row_def)
  from get_movie_details_no_placeholder [OF placeholder_run, of "lit ''Untitled''" w0] p
  show ?thesis using placeholder_run by blast
qed

text \<open>
  C10: for a search term whose stripped form is not empty, \<open>search_movies\<close> sends
  exactly one query, whose parameter is the stripped term; that parameter neither starts
  nor ends with white space, and the call gives the same result and the same effects as
  the call with the stripped term.
\<close>

theorem search_movies_trimmed:
  assumes "strip search_term \<noteq> []"
  shows "queries (snd (search_movies e search_term w)) = queries w @ [(SearchQuery, strip search_term)] \<and>
         \<not> isspace (hd (strip search_term)) \<and> \<not> isspace (last (strip search_term)) \<and>
         search_movies e search_term w = search_movies e (strip search_term) w"
proof -
  have ne: "search_term \<noteq> []" using assms by (auto simp: strip_def)
  have q: "queries (snd (search_movies e search_term w)) = queries w @ [(SearchQuery, strip search_term)]"
    using assms ne by (simp add: search_movies_def sent_def printed_def split: sum.splits)
  have "search_movies e (strip search_term) w = search_movies e search_term w"
    using assms ne by (simp add: search_movies_def strip_strip cong: sum.case_cong)
  with q strip_ends [OF assms] show ?thesis by simp
qed

theorem search_movies_trimmed_witness:
  "strip (lit ''  Matrix '') = lit ''Matrix'' \<and> strip (lit ''  Matrix '') \<noteq> [] \<and>
   queries (snd (search_movies movies_env (lit ''  Matrix '') w0)) = [(SearchQuery, lit ''Matrix'')] \<and>
   search_movies movies_env (lit ''  Matrix '') w0 = search_movies movies_env (lit ''Matrix'') w0"
proof -
  have s: "strip (lit ''  Matrix '') = lit ''Matrix''"
    by (simp add: strip_def lit_def isspace_def)
  have h: "strip (lit ''  Matrix '') \<noteq> []"
    by (simp add: s) (simp add: lit_def)
  from search_movies_trimmed [OF h, of movies_env w0]
  have a: "queries (snd (search_movies movies_env (lit ''  Matrix '') w0)) =
             queries w0 @ [(SearchQuery, strip (lit ''  Matrix ''))]"
    and b: "search_movies movies_env (lit ''  Matrix '') w0 =
              search_movies movies_env (strip (lit ''  Matrix '')) w0"
    by blast+
  have a': "queries (snd (search_movies movies_env (lit ''  Matrix '') w0)) =
              [(SearchQuery, lit ''Matrix'')]"
    unfolding a s by (simp add: w0_def)
  show ?thesis using s h a' b [unfolded s] by blast
qed

end
